theory Spec2Isabelle
  imports Main
begin

section \<open>The custom bearer strategy of \<^verbatim>\<open>lib/strategy.js\<close>\<close>

text \<open>
  The strategy reads a bearer token from a request (a header, a body field or a query
  field, each under a configurable name), hands it to a verify callback and turns the
  callback's answer into one of the Passport actions \<^verbatim>\<open>success\<close>, \<open>fail\<close>
  and \<^verbatim>\<open>error\<close>.

  Scope of the model. Names, header values, field values and tokens are strings, as the
  source's calls of \<^verbatim>\<open>replace\<close>, \<^verbatim>\<open>toLowerCase\<close> and \<^verbatim>\<open>split\<close> need
  them to be; a string is a list of ASCII characters. The only falsy string is the empty
  one, and \<^verbatim>\<open>undefined\<close> is \<open>None\<close>. The objects \<^verbatim>\<open>req.headers\<close>,
  \<^verbatim>\<open>req.body\<close> and \<^verbatim>\<open>req.query\<close> are finite maps from names to strings
  (properties inherited from \<^verbatim>\<open>Object.prototype\<close> are not modelled).
\<close>

subsection \<open>Strings\<close>

text \<open>\<^verbatim>\<open>String.prototype.toLowerCase\<close> on ASCII: the letters A to Z move to a to z.\<close>

definition lower_char :: "char \<Rightarrow> char" where
  "lower_char c =
     (case map_of (zip ''ABCDEFGHIJKLMNOPQRSTUVWXYZ'' ''abcdefghijklmnopqrstuvwxyz'') c of
        None \<Rightarrow> c
      | Some d \<Rightarrow> d)"

definition toLowerCase :: "string \<Rightarrow> string" where
  "toLowerCase s = map lower_char s"

text \<open>\<^verbatim>\<open>s.replace(/^X\-/i, '')\<close>: one leading \<^verbatim>\<open>X-\<close> or \<^verbatim>\<open>x-\<close> is removed.\<close>

fun replace_x :: "string \<Rightarrow> string" where
  "replace_x (c # d # rest) =
     (if (c = CHR ''X'' \<or> c = CHR ''x'') \<and> d = CHR ''-'' then rest else c # d # rest)"
| "replace_x s = s"

text \<open>\<^verbatim>\<open>s.split(' ')\<close>: the pieces between single spaces; never the empty list.\<close>

fun split_sp :: "string \<Rightarrow> string list" where
  "split_sp [] = [[]]"
| "split_sp (c # cs) =
     (if c = CHR '' '' then [] # split_sp cs
      else (case split_sp cs of
              [] \<Rightarrow> [[c]]
            | p # ps \<Rightarrow> (c # p) # ps))"

text \<open>\<^verbatim>\<open>/^Bearer$/i.test(scheme)\<close>: the six letters of Bearer, in any case.\<close>

definition is_bearer :: "string \<Rightarrow> bool" where
  "is_bearer scheme = (toLowerCase scheme = ''bearer'')"

text \<open>\<^verbatim>\<open>Array.prototype.join(' ')\<close>.\<close>

fun join_sp :: "string list \<Rightarrow> string" where
  "join_sp [] = []"
| "join_sp [x] = x"
| "join_sp (x # y # zs) = x @ '' '' @ join_sp (y # zs)"

subsection \<open>Data\<close>

type_synonym fields = "string \<rightharpoonup> string"

record request =
  headers :: "fields option"
  body :: "fields option"
  query :: "fields option"

text \<open>\<^verbatim>\<open>options.scope\<close> is one string or an array of strings.\<close>

datatype scope_option = Scope_string string | Scope_array "string list"

record options =
  realm :: "string option"
  scope :: "scope_option option"
  headerName :: "string option"
  bodyName :: "string option"
  queryName :: "string option"
  passReqToCallback :: bool

datatype which = Which_headerName | Which_bodyName | Which_queryName

text \<open>The third argument of \<^verbatim>\<open>done(err, user, info)\<close>: left out, a string or an object.\<close>

datatype info = Info_undefined | Info_string string | Info_object fields

text \<open>
  The verify callback gets the request (only with \<^verbatim>\<open>passReqToCallback\<close>) and the
  token, and calls \<^verbatim>\<open>done(err, user, info)\<close> any number of times: the list of the
  argument triples, in order. A falsy \<^verbatim>\<open>err\<close> or \<^verbatim>\<open>user\<close> is \<open>None\<close>.
\<close>

type_synonym ('u, 'e) verify = "request option \<Rightarrow> string \<Rightarrow> ('e option \<times> 'u option \<times> info) list"

text \<open>What one call of \<^verbatim>\<open>authenticate\<close> does, in order: the call of the verify callback
  and the actions \<^verbatim>\<open>this.fail\<close>, \<^verbatim>\<open>this.error\<close>, \<^verbatim>\<open>this.success\<close>.\<close>

datatype ('u, 'e) action =
    Fail_status nat
  | Fail_challenge string
  | Error 'e
  | Success 'u info
  | Verify "request option" string

record ('u, 'e) strategy =
  this_name :: string
  this_verify :: "('u, 'e) verify"
  this_realm :: string
  this_scope :: "string list option"
  this_headerName :: string
  this_bodyName :: string
  this_queryName :: string
  this_passReqToCallback :: bool

subsection \<open>The constructor\<close>

definition option_at :: "options \<Rightarrow> which \<Rightarrow> string option" where
  "option_at opts w =
     (case w of
        Which_headerName \<Rightarrow> headerName opts
      | Which_bodyName \<Rightarrow> bodyName opts
      | Which_queryName \<Rightarrow> queryName opts)"

text \<open>\<^verbatim>\<open>getCustomHeaders(options, which)\<close>; \<open>None\<close> is the \<^verbatim>\<open>undefined\<close> it returns
  when it falls through.\<close>

definition getCustomHeaders :: "options option \<Rightarrow> which \<Rightarrow> string option" where
  "getCustomHeaders opts w =
     (case opts of
        None \<Rightarrow> None
      | Some op \<Rightarrow>
          (case option_at op w of
             None \<Rightarrow> None
           | Some v \<Rightarrow>
               if v = [] then None
               else (let f = toLowerCase (replace_x v)
                     in if w = Which_headerName then Some (''x-'' @ f) else Some f)))"

text \<open>\<^verbatim>\<open>a || b\<close> on strings.\<close>

definition or_else :: "string option \<Rightarrow> string \<Rightarrow> string" where
  "or_else a b = (case a of None \<Rightarrow> b | Some s \<Rightarrow> if s = [] then b else s)"

definition empty_options :: options where
  "empty_options =
     \<lparr>realm = None, scope = None, headerName = None, bodyName = None, queryName = None,
      passReqToCallback = False\<rparr>"

text \<open>The first argument of the constructor: nothing, an options object, or the verify
  callback itself.\<close>

datatype ('u, 'e) first_arg =
    Arg_undefined
  | Arg_options options
  | Arg_function "('u, 'e) verify"

datatype ctor_error = Requires_verify_callback | Options_undefined

text \<open>\<^verbatim>\<open>new Strategy(options, verify)\<close>. Both failures are a \<^verbatim>\<open>TypeError\<close>: the one
  the constructor throws itself, and the one of reading \<^verbatim>\<open>options.realm\<close> when
  \<^verbatim>\<open>options\<close> is undefined.\<close>

definition Strategy ::
  "('u, 'e) first_arg \<Rightarrow> ('u, 'e) verify option \<Rightarrow> ctor_error + ('u, 'e) strategy" where
  "Strategy a v =
     (let (opts, vfy) =
            (case a of
               Arg_function f \<Rightarrow> (Some empty_options, Some f)
             | Arg_options op \<Rightarrow> (Some op, v)
             | Arg_undefined \<Rightarrow> (None, v))
      in case vfy of
           None \<Rightarrow> Inl Requires_verify_callback
         | Some vf \<Rightarrow>
             (case opts of
                None \<Rightarrow> Inl Options_undefined
              | Some op \<Rightarrow>
                  Inr \<lparr>this_name = ''custom-bearer'',
                       this_verify = vf,
                       this_realm = or_else (realm op) ''Users'',
                       this_scope =
                         (case scope op of
                            None \<Rightarrow> None
                          | Some (Scope_array xs) \<Rightarrow> Some xs
                          | Some (Scope_string s) \<Rightarrow> if s = [] then None else Some [s]),
                       this_headerName =
                         or_else (getCustomHeaders opts Which_headerName) ''authorization'',
                       this_bodyName =
                         or_else (getCustomHeaders opts Which_bodyName) ''access_token'',
                       this_queryName =
                         or_else (getCustomHeaders opts Which_queryName) ''access_token'',
                       this_passReqToCallback = passReqToCallback op\<rparr>))"

subsection \<open>The challenge\<close>

text \<open>\<^verbatim>\<open>Strategy.prototype._challenge(code, desc, uri)\<close>: the string grows by one
  \<^verbatim>\<open>+=\<close> per test, in the source's order.\<close>

definition challenge ::
  "('u, 'e) strategy \<Rightarrow> string option \<Rightarrow> string option \<Rightarrow> string option \<Rightarrow> string" where
  \<open>challenge this code desc uri =
     (let c0 = ''Bearer realm="'' @ this_realm this @ ''"'';
          c1 = (case this_scope this of
                  None \<Rightarrow> c0
                | Some sc \<Rightarrow> c0 @ '', scope="'' @ join_sp sc @ ''"'');
          c2 = (case code of
                  None \<Rightarrow> c1
                | Some cd \<Rightarrow> if cd = [] then c1 else c1 @ '', error="'' @ cd @ ''"'');
          c3 = (case desc of
                  None \<Rightarrow> c2
                | Some d \<Rightarrow>
                    if length d = 0 then c2 else c2 @ '', error_description="'' @ d @ ''"'');
          c4 = (case uri of
                  None \<Rightarrow> c3
                | Some u \<Rightarrow> if length u = 0 then c3 else c3 @ '', error_uri="'' @ u @ ''"'')
      in c4)\<close>

subsection \<open>Authentication\<close>

text \<open>\<^verbatim>\<open>obj && obj[key]\<close> as a condition: the value when the object is there and the
  value under the key is truthy.\<close>

definition truthy_field :: "fields option \<Rightarrow> string \<Rightarrow> string option" where
  "truthy_field obj key =
     (case obj of
        None \<Rightarrow> None
      | Some m \<Rightarrow>
          (case m key of
             None \<Rightarrow> None
           | Some v \<Rightarrow> if v = [] then None else Some v))"

text \<open>\<^verbatim>\<open>if (token)\<close>.\<close>

definition truthy :: "string option \<Rightarrow> bool" where
  "truthy t = (case t of None \<Rightarrow> False | Some s \<Rightarrow> s \<noteq> [])"

text \<open>\<^verbatim>\<open>info.message\<close>.\<close>

definition message_of :: "info \<Rightarrow> string option" where
  "message_of i = (case i of Info_object m \<Rightarrow> m ''message'' | _ \<Rightarrow> None)"

text \<open>\<^verbatim>\<open>info[key] = value\<close>. The file is not in strict mode, so the assignment to a
  property of a string does nothing.\<close>

definition set_info :: "info \<Rightarrow> string \<Rightarrow> string \<Rightarrow> info" where
  "set_info i k v = (case i of Info_object m \<Rightarrow> Info_object (m(k \<mapsto> v)) | _ \<Rightarrow> i)"

text \<open>The inner function \<^verbatim>\<open>verified(err, user, info)\<close>, with \<^verbatim>\<open>self\<close> as its
  first argument.\<close>

definition verified ::
  "('u, 'e) strategy \<Rightarrow> 'e option \<Rightarrow> 'u option \<Rightarrow> info \<Rightarrow> ('u, 'e) action" where
  "verified self err user info =
     (let info0 = (case info of
                     Info_undefined \<Rightarrow> Info_object Map.empty
                   | Info_string s \<Rightarrow> if s = [] then Info_object Map.empty else info
                   | Info_object m \<Rightarrow> info)
      in case err of
           Some e \<Rightarrow> Error e
         | None \<Rightarrow>
             (case user of
                None \<Rightarrow>
                  (let info1 = (case info0 of
                                  Info_string s \<Rightarrow> Info_object [''message'' \<mapsto> s]
                                | _ \<Rightarrow> info0)
                   in Fail_challenge
                        (challenge self (Some ''invalid_token'') (message_of info1) None))
              | Some u \<Rightarrow>
                  (let info1 = set_info info0 ''headerName'' (this_headerName self);
                       info2 = set_info info1 ''bodyName'' (this_bodyName self);
                       info3 = set_info info2 ''queryName'' (this_queryName self)
                   in Success u info3)))"

text \<open>
  The end of \<^verbatim>\<open>authenticate\<close>: the verify callback is called, with the request
  in front when \<^verbatim>\<open>_passReqToCallback\<close> is set, and each of its calls of
  \<^verbatim>\<open>verified\<close> gives one action.
\<close>

definition call_verify ::
  "('u, 'e) strategy \<Rightarrow> request \<Rightarrow> string \<Rightarrow> ('u, 'e) action list" where
  "call_verify self req token =
     (let r = (if this_passReqToCallback self then Some req else None)
      in Verify r token #
         map (\<lambda>(err, user, info). verified self err user info) (this_verify self r token))"

text \<open>
  \<^verbatim>\<open>Strategy.prototype.authenticate(req)\<close>. Each of the three blocks either returns
  (\<open>Inl\<close>, the actions of the whole call) or goes on with the token it leaves
  (\<open>Inr\<close>); a token is \<open>None\<close> while the variable is undefined.
\<close>

definition authenticate :: "('u, 'e) strategy \<Rightarrow> request \<Rightarrow> ('u, 'e) action list" where
  "authenticate this req =
     (case (case truthy_field (headers req) (this_headerName this) of
              None \<Rightarrow> Inr None
            | Some h \<Rightarrow>
                (case split_sp h of
                   [scheme, credentials] \<Rightarrow>
                     if is_bearer scheme then Inr (Some credentials) else Inr None
                 | _ \<Rightarrow> Inl [Fail_status 400])) of
        Inl r \<Rightarrow> r
      | Inr token0 \<Rightarrow>
          (case (case truthy_field (body req) (this_bodyName this) of
                   None \<Rightarrow> Inr token0
                 | Some b \<Rightarrow> if truthy token0 then Inl [Fail_status 400] else Inr (Some b)) of
             Inl r \<Rightarrow> r
           | Inr token1 \<Rightarrow>
               (case (case truthy_field (query req) (this_queryName this) of
                        None \<Rightarrow> Inr token1
                      | Some q \<Rightarrow>
                          if truthy token1 then Inl [Fail_status 400] else Inr (Some q)) of
                  Inl r \<Rightarrow> r
                | Inr token2 \<Rightarrow>
                    (case token2 of
                       None \<Rightarrow> [Fail_challenge (challenge this None None None)]
                     | Some token \<Rightarrow>
                         if token = [] then [Fail_challenge (challenge this None None None)]
                         else call_verify this req token))))"

subsection \<open>The challenge format of RFC 6750, as the specification words it\<close>

text \<open>A field that is there and not empty.\<close>

definition present :: "string option \<Rightarrow> string option" where
  "present v = (case v of None \<Rightarrow> None | Some s \<Rightarrow> if s = [] then None else Some s)"

text \<open>One optional field \<^verbatim>\<open>, key="value"\<close>, or nothing.\<close>

definition challenge_field :: "string \<Rightarrow> string option \<Rightarrow> string" where
  \<open>challenge_field k v = (case v of None \<Rightarrow> [] | Some x \<Rightarrow> '', '' @ k @ ''="'' @ x @ ''"'')\<close>

text \<open>The format: the realm, then the optional fields in their fixed order, each of the
  four under the same test; the value of the scope field is the space-joined scope.\<close>

definition challenge_format ::
  "string \<Rightarrow> string list option \<Rightarrow> string option \<Rightarrow> string option \<Rightarrow> string option \<Rightarrow> string"
  where
  \<open>challenge_format rlm sc code desc uri =
     ''Bearer realm="'' @ rlm @ ''"'' @
     concat (map (\<lambda>(k, v). challenge_field k v)
       [(''scope'', present (map_option join_sp sc)),
        (''error'', present code),
        (''error_description'', present desc),
        (''error_uri'', present uri)])\<close>

subsection \<open>Example inputs\<close>

text \<open>A verify callback that knows one token, \<^verbatim>\<open>abc\<close>, of the user alice with scope
  read, and rejects every other token with a message.\<close>

definition example_verify :: "(string, string) verify" where
  "example_verify r token =
     (if token = ''abc'' then [(None, Some ''alice'', Info_object [''scope'' \<mapsto> ''read''])]
      else [(None, None, Info_string ''bad token'')])"

text \<open>\<^verbatim>\<open>new Strategy(verify)\<close>: the default configuration.\<close>

definition default_example :: "(string, string) strategy" where
  "default_example = projr (Strategy (Arg_function example_verify) None)"

text \<open>The options of the usage example of the package's README.\<close>

definition api_options :: options where
  "api_options =
     empty_options\<lparr>headerName := Some ''APIAuth'', bodyName := Some ''api_token'',
       queryName := Some ''api_token''\<rparr>"

definition api_example :: "(string, string) strategy" where
  "api_example = projr (Strategy (Arg_options api_options) (Some example_verify))"

section \<open>Properties\<close>

subsection \<open>Strings\<close>

lemma lower_char_space: "lower_char (CHR '' '') = CHR '' ''"
  by (simp add: lower_char_def)

lemma lower_char_x: "lower_char c = CHR ''x'' \<longleftrightarrow> c = CHR ''X'' \<or> c = CHR ''x''"
  by (auto simp: lower_char_def split: if_splits)

lemma lower_char_dash: "lower_char c = CHR ''-'' \<longleftrightarrow> c = CHR ''-''"
  by (auto simp: lower_char_def split: if_splits)

lemma is_bearer_no_space: "is_bearer s \<Longrightarrow> CHR '' '' \<notin> set s"
proof
  assume b: "is_bearer s" and "CHR '' '' \<in> set s"
  then have "lower_char (CHR '' '') \<in> set (toLowerCase s)"
    by (simp add: toLowerCase_def)
  with b show False
    by (simp add: is_bearer_def lower_char_space)
qed

lemma split_sp_nonempty: "split_sp s \<noteq> []"
  by (induction s) (auto split: list.splits)

lemma split_sp_no_space: "CHR '' '' \<notin> set s \<Longrightarrow> split_sp s = [s]"
  by (induction s) auto

lemma split_sp_at_space:
  "CHR '' '' \<notin> set s \<Longrightarrow> split_sp (s @ CHR '' '' # t) = s # split_sp t"
  by (induction s) auto

lemma split_sp_two:
  "CHR '' '' \<notin> set s \<Longrightarrow> CHR '' '' \<notin> set t \<Longrightarrow> split_sp (s @ '' '' @ t) = [s, t]"
  by (simp add: split_sp_at_space split_sp_no_space)

lemma replace_x_lower:
  assumes eq: "toLowerCase a = toLowerCase b"
  shows "toLowerCase (replace_x a) = toLowerCase (replace_x b)"
proof (cases a)
  case Nil
  with eq show ?thesis by (simp add: toLowerCase_def)
next
  case outer: (Cons c tl)
  show ?thesis
  proof (cases tl)
    case Nil
    with eq outer show ?thesis by (auto simp: toLowerCase_def)
  next
    case (Cons d rest)
    with eq outer obtain c' d' rest' where b: "b = c' # d' # rest'"
      and l: "lower_char c = lower_char c'" "lower_char d = lower_char d'"
        "toLowerCase rest = toLowerCase rest'"
      by (auto simp: toLowerCase_def)
    have "(c = CHR ''X'' \<or> c = CHR ''x'') \<longleftrightarrow> (c' = CHR ''X'' \<or> c' = CHR ''x'')"
      using l(1) lower_char_x by metis
    moreover have "d = CHR ''-'' \<longleftrightarrow> d' = CHR ''-''"
      using l(2) lower_char_dash by metis
    ultimately show ?thesis
      using outer Cons b eq by (auto simp: toLowerCase_def)
  qed
qed

lemma replace_x_prefix:
  "p = ''X-'' \<or> p = ''x-'' \<Longrightarrow> replace_x (p @ r) = r"
  by auto

lemma replace_x_keeps:
  "take 2 (toLowerCase s) \<noteq> ''x-'' \<Longrightarrow> replace_x s = s"
  by (cases s rule: replace_x.cases) (auto simp: toLowerCase_def lower_char_def)

lemma toLowerCase_Nil: "toLowerCase s = [] \<longleftrightarrow> s = []"
  by (simp add: toLowerCase_def)

subsection \<open>The constructor\<close>

lemma Strategy_default:
  "Strategy (Arg_function v) w =
     Inr \<lparr>this_name = ''custom-bearer'', this_verify = v, this_realm = ''Users'',
          this_scope = None, this_headerName = ''authorization'',
          this_bodyName = ''access_token'', this_queryName = ''access_token'',
          this_passReqToCallback = False\<rparr>"
  by (simp add: Strategy_def empty_options_def or_else_def getCustomHeaders_def option_at_def)

lemma default_options_strategy:
  "Strategy (Arg_options empty_options) (Some v) = Strategy (Arg_function v) w"
  by (simp add: Strategy_def)

lemma bare_challenge_default:
  "this_realm this = ''Users'' \<Longrightarrow> this_scope this = None \<Longrightarrow>
   challenge this None None None = ''Bearer realm=\"Users\"''"
  by (simp add: challenge_def)

lemma default_realm_scope:
  "Strategy (Arg_function v) w = Inr this \<Longrightarrow> this_realm this = ''Users'' \<and> this_scope this = None"
  by (auto simp: Strategy_default)

lemma Strategy_names:
  assumes "Strategy (Arg_options op) (Some v) = Inr this"
  shows "this_headerName this = or_else (getCustomHeaders (Some op) Which_headerName) ''authorization''"
    and "this_bodyName this = or_else (getCustomHeaders (Some op) Which_bodyName) ''access_token''"
    and "this_queryName this = or_else (getCustomHeaders (Some op) Which_queryName) ''access_token''"
  using assms by (auto simp: Strategy_def)

lemma header_name_supplied:
  "headerName op = Some h \<Longrightarrow> h \<noteq> [] \<Longrightarrow>
   or_else (getCustomHeaders (Some op) Which_headerName) d = ''x-'' @ toLowerCase (replace_x h)"
  by (simp add: getCustomHeaders_def option_at_def or_else_def)

lemma name_omitted:
  "option_at op w = None \<or> option_at op w = Some [] \<Longrightarrow>
   or_else (getCustomHeaders (Some op) w) d = d"
  by (auto simp: getCustomHeaders_def or_else_def)


lemma default_example_fields:
  "default_example =
     \<lparr>this_name = ''custom-bearer'', this_verify = example_verify, this_realm = ''Users'',
      this_scope = None, this_headerName = ''authorization'',
      this_bodyName = ''access_token'', this_queryName = ''access_token'',
      this_passReqToCallback = False\<rparr>"
  by (simp add: default_example_def Strategy_default)

lemma default_example_built: "Strategy (Arg_function example_verify) None = Inr default_example"
  by (simp add: default_example_fields Strategy_default)

lemmas string_eval = toLowerCase_def lower_char_def is_bearer_def

lemma api_example_fields:
  "api_example =
     \<lparr>this_name = ''custom-bearer'', this_verify = example_verify, this_realm = ''Users'',
      this_scope = None, this_headerName = ''x-apiauth'',
      this_bodyName = ''api_token'', this_queryName = ''api_token'',
      this_passReqToCallback = False\<rparr>"
  by (simp add: api_example_def api_options_def Strategy_def empty_options_def or_else_def
        getCustomHeaders_def option_at_def string_eval)

lemma api_example_built: "Strategy (Arg_options api_options) (Some example_verify) = Inr api_example"
  by (simp add: api_example_fields api_options_def Strategy_def empty_options_def or_else_def
        getCustomHeaders_def option_at_def string_eval)

subsection \<open>The three locations\<close>

lemma not_two_parts:
  "length ps \<noteq> 2 \<Longrightarrow> (case ps of [a, b] \<Rightarrow> f a b | _ \<Rightarrow> g) = g"
  by (auto split: list.splits)

lemma truthy_field_Some:
  "truthy_field obj k = Some v \<longleftrightarrow> (\<exists>m. obj = Some m \<and> m k = Some v \<and> v \<noteq> [])"
  by (auto simp: truthy_field_def split: option.splits)

lemma truthy_field_None:
  "truthy_field obj k = None \<longleftrightarrow> (\<forall>m v. obj = Some m \<longrightarrow> m k = Some v \<longrightarrow> v = [])"
  by (auto simp: truthy_field_def split: option.splits)

lemma truthy_field_truthy: "truthy_field obj k = Some v \<Longrightarrow> truthy (Some v)"
  by (auto simp: truthy_field_Some truthy_def)

lemma truthy_field_nonempty: "truthy_field obj k = Some v \<Longrightarrow> v \<noteq> []"
  by (auto simp: truthy_field_def split: option.splits if_splits)

lemma header_is_truthy:
  "headers req = Some m \<Longrightarrow> m k = Some h \<Longrightarrow> split_sp h = [s, c] \<Longrightarrow>
   truthy_field (headers req) k = Some h"
  by (auto simp: truthy_field_def)

lemma authenticate_header_token:
  assumes "truthy_field (headers req) (this_headerName this) = Some h"
    and "split_sp h = [scheme, credentials]" and "is_bearer scheme" and "credentials \<noteq> []"
    and "truthy_field (body req) (this_bodyName this) \<noteq> None \<or>
         truthy_field (query req) (this_queryName this) \<noteq> None"
  shows "authenticate this req = [Fail_status 400]"
  using assms by (auto simp: authenticate_def truthy_def split: option.split)

lemma authenticate_body_query:
  assumes "truthy_field (body req) (this_bodyName this) = Some b"
    and "truthy_field (query req) (this_queryName this) = Some q"
  shows "authenticate this req = [Fail_status 400]"
  using assms truthy_field_truthy [OF assms(1)]
  by (simp add: authenticate_def split: option.split list.split sum.split)

lemma authenticate_bearer_only:
  assumes "truthy_field (headers req) (this_headerName this) = Some h"
    and "split_sp h = [scheme, credentials]" and "is_bearer scheme" and "credentials \<noteq> []"
    and "truthy_field (body req) (this_bodyName this) = None"
    and "truthy_field (query req) (this_queryName this) = None"
  shows "authenticate this req = call_verify this req credentials"
  using assms by (simp add: authenticate_def)

text \<open>The header block leaves no truthy token: what the body and query blocks then do.\<close>

lemma authenticate_no_header_token:
  assumes "case truthy_field (headers req) (this_headerName this) of
             None \<Rightarrow> True
           | Some h \<Rightarrow> (\<exists>scheme credentials.
                 split_sp h = [scheme, credentials] \<and> (is_bearer scheme \<longrightarrow> credentials = []))"
  shows "authenticate this req =
           (case (truthy_field (body req) (this_bodyName this),
                  truthy_field (query req) (this_queryName this)) of
              (None, None) \<Rightarrow> [Fail_challenge (challenge this None None None)]
            | (Some b, None) \<Rightarrow> call_verify this req b
            | (None, Some q) \<Rightarrow> call_verify this req q
            | (Some b, Some q) \<Rightarrow> [Fail_status 400])"
proof (cases "truthy_field (body req) (this_bodyName this)")
  case None
  note b = this
  show ?thesis
  proof (cases "truthy_field (query req) (this_queryName this)")
    case None
    with b assms show ?thesis
      by (auto simp: authenticate_def truthy_def split: option.splits)
  next
    case (Some qv)
    with b assms truthy_field_nonempty [OF Some] show ?thesis
      by (auto simp: authenticate_def truthy_def split: option.splits)
  qed
next
  case (Some bv)
  note b = this
  show ?thesis
  proof (cases "truthy_field (query req) (this_queryName this)")
    case None
    with b assms truthy_field_nonempty [OF b] show ?thesis
      by (auto simp: authenticate_def truthy_def split: option.splits)
  next
    case (Some qv)
    with b show ?thesis
      by (simp add: authenticate_body_query)
  qed
qed

lemma call_verify_no_req:
  "\<not> this_passReqToCallback this \<Longrightarrow> call_verify this req token = call_verify this req' token"
  by (simp add: call_verify_def)

lemma authenticate_other_headers:
  assumes "m' (this_headerName this) = m (this_headerName this)"
    and "\<not> this_passReqToCallback this"
  shows "authenticate this (req\<lparr>headers := Some m'\<rparr>) =
         authenticate this (req\<lparr>headers := Some m\<rparr>)"
proof -
  have h: "truthy_field (headers (req\<lparr>headers := Some m'\<rparr>)) (this_headerName this) =
           truthy_field (headers (req\<lparr>headers := Some m\<rparr>)) (this_headerName this)"
    using assms(1) by (simp add: truthy_field_def)
  have b: "body (req\<lparr>headers := Some m'\<rparr>) = body (req\<lparr>headers := Some m\<rparr>)"
    by simp
  have q: "query (req\<lparr>headers := Some m'\<rparr>) = query (req\<lparr>headers := Some m\<rparr>)"
    by simp
  have c: "call_verify this (req\<lparr>headers := Some m'\<rparr>) =
           call_verify this (req\<lparr>headers := Some m\<rparr>)"
    using call_verify_no_req [OF assms(2)] by blast
  show ?thesis
    unfolding authenticate_def h b q c by (rule refl)
qed

lemma two_elements: "length xs = 2 \<Longrightarrow> \<exists>a b. xs = [a, b]"
  by (cases xs; cases "tl xs") auto

lemma truthy_field_value:
  "truthy_field obj k =
     (let v = (case obj of None \<Rightarrow> [] | Some m \<Rightarrow> (case m k of None \<Rightarrow> [] | Some v \<Rightarrow> v))
      in if v = [] then None else Some v)"
  by (simp add: truthy_field_def split: option.split)

lemmas run_eval = authenticate_def call_verify_def truthy_field_def truthy_def
  example_verify_def verified_def set_info_def message_of_def challenge_def

subsection \<open>Conflicting and malformed placements\<close>

text \<open>
  Claim C1. A request that carries a non-empty credential in two or more of the three
  locations is answered with \<^verbatim>\<open>fail(400)\<close> and nothing else; the verify callback
  is not called. The header carries a credential when its non-empty value splits on
  single spaces into exactly a scheme that is Bearer in any case and a non-empty second
  part; the body and the query carry one when the object is there and the value under the
  configured field name is a non-empty string. The three Booleans \<open>hdr\<close>, \<open>bdy\<close>
  and \<open>qry\<close> say which locations do.
\<close>

theorem conflicting_locations_rejected:
  assumes "hdr \<longleftrightarrow> (\<exists>h scheme credentials.
              truthy_field (headers req) (this_headerName this) = Some h \<and>
              split_sp h = [scheme, credentials] \<and> is_bearer scheme \<and> credentials \<noteq> [])"
    and "bdy \<longleftrightarrow> truthy_field (body req) (this_bodyName this) \<noteq> None"
    and "qry \<longleftrightarrow> truthy_field (query req) (this_queryName this) \<noteq> None"
    and "hdr \<and> bdy \<or> hdr \<and> qry \<or> bdy \<and> qry"
  shows "authenticate this req = [Fail_status 400] \<and>
         (\<forall>r t. Verify r t \<notin> set (authenticate this req))"
proof -
  have "authenticate this req = [Fail_status 400]"
  proof (cases hdr)
    case True
    then have "bdy \<or> qry"
      using assms(4) by blast
    then have "truthy_field (body req) (this_bodyName this) \<noteq> None \<or>
               truthy_field (query req) (this_queryName this) \<noteq> None"
      using assms(2,3) by simp
    moreover obtain h scheme credentials where
      "truthy_field (headers req) (this_headerName this) = Some h"
      "split_sp h = [scheme, credentials]" "is_bearer scheme" "credentials \<noteq> []"
      using True assms(1) by blast
    ultimately show ?thesis
      by (rule authenticate_header_token [rotated 4])
  next
    case False
    then have "bdy" "qry"
      using assms(4) by blast+
    then obtain b q where "truthy_field (body req) (this_bodyName this) = Some b"
      "truthy_field (query req) (this_queryName this) = Some q"
      using assms(2,3) by auto
    then show ?thesis
      by (rule authenticate_body_query)
  qed
  then show ?thesis by simp
qed

text \<open>
  The default strategy, a request with \<^verbatim>\<open>Authorization: Bearer abc\<close> and a body
  field \<^verbatim>\<open>access_token=xyz\<close>.
\<close>

theorem conflicting_locations_rejected_witness:
  "authenticate default_example
     \<lparr>headers = Some [''authorization'' \<mapsto> ''Bearer abc''],
      body = Some [''access_token'' \<mapsto> ''xyz''], query = None\<rparr> = [Fail_status 400]"
  using conflicting_locations_rejected [of True
      "\<lparr>headers = Some [''authorization'' \<mapsto> ''Bearer abc''],
        body = Some [''access_token'' \<mapsto> ''xyz''], query = None\<rparr>" default_example True False]
  by (simp add: default_example_fields truthy_field_def string_eval)

text \<open>
  Claim C2, amended. When the configured header is there with a non-empty value that
  splits on single spaces into a number of parts other than two, the call is answered
  with \<^verbatim>\<open>fail(400)\<close> and nothing else, whatever the body and the query hold; the
  verify callback is not called.
\<close>

theorem malformed_header_rejected:
  assumes "headers req = Some m" and "m (this_headerName this) = Some h"
    and "h \<noteq> []" and "length (split_sp h) \<noteq> 2"
  shows "authenticate this req = [Fail_status 400] \<and>
         (\<forall>r t. Verify r t \<notin> set (authenticate this req))"
proof -
  have "truthy_field (headers req) (this_headerName this) = Some h"
    using assms by (simp add: truthy_field_Some)
  then have "authenticate this req = [Fail_status 400]"
    using assms(4) by (simp add: authenticate_def not_two_parts)
  then show ?thesis by simp
qed

text \<open>
  The header \<^verbatim>\<open>Authorization: Bearer\<close> has one part; the token in the body does not
  help.
\<close>

theorem malformed_header_rejected_witness:
  "length (split_sp ''Bearer'') = 1 \<and>
   authenticate default_example
     \<lparr>headers = Some [''authorization'' \<mapsto> ''Bearer''],
      body = Some [''access_token'' \<mapsto> ''abc''], query = None\<rparr> = [Fail_status 400]"
  using malformed_header_rejected [of
      "\<lparr>headers = Some [''authorization'' \<mapsto> ''Bearer''],
        body = Some [''access_token'' \<mapsto> ''abc''], query = None\<rparr>"
      "[''authorization'' \<mapsto> ''Bearer'']" default_example "''Bearer''"]
  by (simp add: default_example_fields)

text \<open>
  Without the condition on the value the statement fails. The empty string splits into
  one part, \<^verbatim>\<open>''.split(' ')\<close> being \<^verbatim>\<open>['']\<close>, but it is falsy, so the test
  \<^verbatim>\<open>req.headers[this._headerName]\<close> skips the header block: the request below is
  not rejected, and the verify callback gets the token of the body.
\<close>

theorem empty_header_not_rejected:
  "length (split_sp '''') = 1 \<and>
   authenticate default_example
     \<lparr>headers = Some [''authorization'' \<mapsto> ''''],
      body = Some [''access_token'' \<mapsto> ''abc''], query = None\<rparr> =
   [Verify None ''abc'',
    Success ''alice''
      (Info_object [''scope'' \<mapsto> ''read'', ''headerName'' \<mapsto> ''authorization'',
         ''bodyName'' \<mapsto> ''access_token'', ''queryName'' \<mapsto> ''access_token''])]"
  by (simp add: default_example_fields authenticate_def call_verify_def truthy_field_def
        truthy_def example_verify_def verified_def set_info_def)

subsection \<open>Resolution of the field names\<close>

text \<open>
  Claim C3, amended. For a strategy built from options: a \<^verbatim>\<open>headerName\<close> that
  begins with \<^verbatim>\<open>X-\<close> or \<^verbatim>\<open>x-\<close> loses these two characters, and only them, the
  rest is lower-cased and \<^verbatim>\<open>x-\<close> is put in front; a non-empty \<^verbatim>\<open>headerName\<close>
  that does not begin so is lower-cased as a whole and gets \<^verbatim>\<open>x-\<close> in front; a
  \<^verbatim>\<open>headerName\<close> that is left out (or empty) gives the key
  \<^verbatim>\<open>authorization\<close>, with no prefix. Two spellings of a name that differ in case
  only resolve to the same key, and the locator reads the headers under this key alone:
  without \<^verbatim>\<open>passReqToCallback\<close>, two header objects that agree under the key give
  the same run.
\<close>

theorem header_name_resolution:
  assumes "Strategy (Arg_options op) (Some v) = Inr this"
  shows "(\<forall>p r. headerName op = Some (p @ r) \<and> (p = ''X-'' \<or> p = ''x-'') \<longrightarrow>
            this_headerName this = ''x-'' @ toLowerCase r) \<and>
         (\<forall>h. headerName op = Some h \<and> h \<noteq> [] \<and> take 2 (toLowerCase h) \<noteq> ''x-'' \<longrightarrow>
            this_headerName this = ''x-'' @ toLowerCase h) \<and>
         (headerName op = None \<or> headerName op = Some [] \<longrightarrow>
            this_headerName this = ''authorization'') \<and>
         (\<forall>h h' (v' :: ('c, 'd) verify) this'.
            headerName op = Some h \<and> h \<noteq> [] \<and> toLowerCase h' = toLowerCase h \<and>
            Strategy (Arg_options (op\<lparr>headerName := Some h'\<rparr>)) (Some v') = Inr this' \<longrightarrow>
            this_headerName this' = this_headerName this) \<and>
         (\<forall>req m m'.
            m' (this_headerName this) = m (this_headerName this) \<and>
            \<not> this_passReqToCallback this \<longrightarrow>
            authenticate this (req\<lparr>headers := Some m'\<rparr>) =
            authenticate this (req\<lparr>headers := Some m\<rparr>))"
proof (intro conjI allI impI)
  fix p r
  assume a: "headerName op = Some (p @ r) \<and> (p = ''X-'' \<or> p = ''x-'')"
  then have "p @ r \<noteq> []" and "replace_x (p @ r) = r"
    using replace_x_prefix [of p r] by auto
  with a show "this_headerName this = ''x-'' @ toLowerCase r"
    using header_name_supplied [of op "p @ r" "''authorization''"]
    by (simp add: Strategy_names(1) [OF assms])
next
  fix h
  assume a: "headerName op = Some h \<and> h \<noteq> [] \<and> take 2 (toLowerCase h) \<noteq> ''x-''"
  then have "replace_x h = h"
    by (simp add: replace_x_keeps)
  with a show "this_headerName this = ''x-'' @ toLowerCase h"
    using header_name_supplied [of op h "''authorization''"]
    by (simp add: Strategy_names(1) [OF assms])
next
  assume "headerName op = None \<or> headerName op = Some []"
  then have "option_at op Which_headerName = None \<or> option_at op Which_headerName = Some []"
    by (simp add: option_at_def)
  then show "this_headerName this = ''authorization''"
    by (simp add: Strategy_names(1) [OF assms] name_omitted)
next
  fix h h' and v' :: "('c, 'd) verify" and this' :: "('c, 'd) strategy"
  assume a: "headerName op = Some h \<and> h \<noteq> [] \<and> toLowerCase h' = toLowerCase h \<and>
    Strategy (Arg_options (op\<lparr>headerName := Some h'\<rparr>)) (Some v') = Inr this'"
  then have h: "headerName op = Some h" "h \<noteq> []"
    and eq: "toLowerCase h' = toLowerCase h"
    and s': "Strategy (Arg_options (op\<lparr>headerName := Some h'\<rparr>)) (Some v') = Inr this'"
    by blast+
  have "toLowerCase h' \<noteq> []"
    using h(2) by (simp add: eq toLowerCase_Nil)
  then have h': "h' \<noteq> []"
    by (simp add: toLowerCase_Nil)
  have "this_headerName this' = ''x-'' @ toLowerCase (replace_x h')"
    using h' by (simp add: Strategy_names(1) [OF s'] header_name_supplied)
  moreover have "this_headerName this = ''x-'' @ toLowerCase (replace_x h)"
    using h by (simp add: Strategy_names(1) [OF assms] header_name_supplied)
  ultimately show "this_headerName this' = this_headerName this"
    using replace_x_lower [OF eq] by simp
next
  fix req :: request and m m' :: fields
  assume "m' (this_headerName this) = m (this_headerName this) \<and> \<not> this_passReqToCallback this"
  then show "authenticate this (req\<lparr>headers := Some m'\<rparr>) =
             authenticate this (req\<lparr>headers := Some m\<rparr>)"
    using authenticate_other_headers [of m' this m req] by blast
qed

text \<open>
  A name with the prefix: \<^verbatim>\<open>X-APIAuth\<close> resolves to \<^verbatim>\<open>x-apiauth\<close>, and
  \<^verbatim>\<open>x-X-Auth\<close> to \<^verbatim>\<open>x-x-auth\<close>, one prefix being removed and not two. The
  options of the README: \<^verbatim>\<open>APIAuth\<close> resolves to \<^verbatim>\<open>x-apiauth\<close> as well, and
  so does \<^verbatim>\<open>apiAUTH\<close>; a second header \<^verbatim>\<open>authorization\<close> in the request
  changes nothing; and empty options give \<^verbatim>\<open>authorization\<close>.
\<close>

theorem header_name_resolution_witness:
  "this_headerName
     (projr (Strategy (Arg_options (empty_options\<lparr>headerName := Some ''X-APIAuth''\<rparr>))
        (Some example_verify))) = ''x-apiauth'' \<and>
   this_headerName
     (projr (Strategy (Arg_options (empty_options\<lparr>headerName := Some ''x-X-Auth''\<rparr>))
        (Some example_verify))) = ''x-x-auth'' \<and>
   this_headerName api_example = ''x-apiauth'' \<and>
   this_headerName
     (projr (Strategy (Arg_options (api_options\<lparr>headerName := Some ''apiAUTH''\<rparr>))
        (Some example_verify))) = ''x-apiauth'' \<and>
   authenticate api_example
     \<lparr>headers = Some [''x-apiauth'' \<mapsto> ''Bearer abc'', ''authorization'' \<mapsto> ''Basic xyz''],
      body = None, query = None\<rparr> =
   authenticate api_example
     \<lparr>headers = Some [''x-apiauth'' \<mapsto> ''Bearer abc''], body = None, query = None\<rparr> \<and>
   this_headerName (projr (Strategy (Arg_options empty_options) (Some example_verify))) =
     ''authorization''"
proof -
  note api = header_name_resolution [OF api_example_built]
  have built: "Strategy (Arg_options o') (Some example_verify) =
           Inr (projr (Strategy (Arg_options o') (Some example_verify)))" for o'
    by (simp add: Strategy_def)
  have x1: "headerName (empty_options\<lparr>headerName := Some ''X-APIAuth''\<rparr>) =
              Some (''X-'' @ ''APIAuth'') \<and> (''X-'' = ''X-'' \<or> ''X-'' = ''x-'')"
    by simp
  have x2: "headerName (empty_options\<lparr>headerName := Some ''x-X-Auth''\<rparr>) =
              Some (''x-'' @ ''X-Auth'') \<and> (''x-'' = ''X-'' \<or> ''x-'' = ''x-'')"
    by simp
  have "this_headerName
     (projr (Strategy (Arg_options (empty_options\<lparr>headerName := Some ''X-APIAuth''\<rparr>))
        (Some example_verify))) = ''x-'' @ toLowerCase ''APIAuth''"
    using header_name_resolution
      [OF built [of "empty_options\<lparr>headerName := Some ''X-APIAuth''\<rparr>"]] x1
    by blast
  then have p1: "this_headerName
     (projr (Strategy (Arg_options (empty_options\<lparr>headerName := Some ''X-APIAuth''\<rparr>))
        (Some example_verify))) = ''x-apiauth''"
    by (simp add: string_eval)
  have "this_headerName
     (projr (Strategy (Arg_options (empty_options\<lparr>headerName := Some ''x-X-Auth''\<rparr>))
        (Some example_verify))) = ''x-'' @ toLowerCase ''X-Auth''"
    using header_name_resolution
      [OF built [of "empty_options\<lparr>headerName := Some ''x-X-Auth''\<rparr>"]] x2
    by blast
  then have p2: "this_headerName
     (projr (Strategy (Arg_options (empty_options\<lparr>headerName := Some ''x-X-Auth''\<rparr>))
        (Some example_verify))) = ''x-x-auth''"
    by (simp add: string_eval)
  have 1: "headerName api_options = Some ''APIAuth'' \<and> ''APIAuth'' \<noteq> []"
    by (simp add: api_options_def)
  have "take 2 (toLowerCase ''APIAuth'') \<noteq> ''x-''"
    by (simp add: string_eval)
  with api 1 have "this_headerName api_example = ''x-'' @ toLowerCase ''APIAuth''"
    by blast
  then have a: "this_headerName api_example = ''x-apiauth''"
    by (simp add: string_eval)
  have "toLowerCase ''apiAUTH'' = toLowerCase ''APIAuth''"
    by (simp add: string_eval)
  with api 1 built have "this_headerName
     (projr (Strategy (Arg_options (api_options\<lparr>headerName := Some ''apiAUTH''\<rparr>))
        (Some example_verify))) = this_headerName api_example"
    by blast
  with a have b: "this_headerName
     (projr (Strategy (Arg_options (api_options\<lparr>headerName := Some ''apiAUTH''\<rparr>))
        (Some example_verify))) = ''x-apiauth''"
    by simp
  have "[''x-apiauth'' \<mapsto> ''Bearer abc'', ''authorization'' \<mapsto> ''Basic xyz'']
          (this_headerName api_example) =
        [''x-apiauth'' \<mapsto> ''Bearer abc''] (this_headerName api_example) \<and>
        \<not> this_passReqToCallback api_example"
    by (simp add: api_example_fields)
  with api have "authenticate api_example (\<lparr>headers = None, body = None, query = None\<rparr>
            \<lparr>headers := Some [''x-apiauth'' \<mapsto> ''Bearer abc'', ''authorization'' \<mapsto> ''Basic xyz'']\<rparr>) =
          authenticate api_example (\<lparr>headers = None, body = None, query = None\<rparr>
            \<lparr>headers := Some [''x-apiauth'' \<mapsto> ''Bearer abc'']\<rparr>)"
    by blast
  then have c: "authenticate api_example
     \<lparr>headers = Some [''x-apiauth'' \<mapsto> ''Bearer abc'', ''authorization'' \<mapsto> ''Basic xyz''],
      body = None, query = None\<rparr> =
   authenticate api_example
     \<lparr>headers = Some [''x-apiauth'' \<mapsto> ''Bearer abc''], body = None, query = None\<rparr>"
    by simp
  have d: "this_headerName (projr (Strategy (Arg_options empty_options) (Some example_verify))) =
     ''authorization''"
    using header_name_resolution [OF built [of empty_options]] by (simp add: empty_options_def)
  from p1 p2 a b c d show ?thesis by blast
qed

text \<open>
  The default is not the prefixed key: the constructor falls back to the plain string
  \<^verbatim>\<open>'authorization'\<close>, as its documentation says (``defaults to Authorization and
  ensures the X- prefix otherwise'').
\<close>

theorem default_header_name_unprefixed:
  "this_headerName (projr (Strategy (Arg_options empty_options) (Some example_verify))) =
     ''authorization'' \<and>
   this_headerName (projr (Strategy (Arg_options empty_options) (Some example_verify))) \<noteq>
     ''x-authorization''"
  by (simp add: Strategy_def empty_options_def or_else_def getCustomHeaders_def option_at_def)




subsection \<open>The header\<close>

text \<open>
  Claim C5, amended. Let the configured header be there and split on single spaces into
  exactly two parts. If the first part is Bearer in any case, the second part is the token
  candidate: when it is not empty and neither body nor query carries a credential, the
  verify callback is called with exactly this token (after the request, if
  \<^verbatim>\<open>passReqToCallback\<close> is set). If the first part is another scheme, the header
  gives no candidate and no error: the outcome is the one the body and the query decide.
\<close>

theorem two_part_header:
  assumes "headers req = Some m" and "m (this_headerName this) = Some h"
    and "split_sp h = [scheme, credentials]"
  shows "(is_bearer scheme \<and> credentials \<noteq> [] \<and>
          truthy_field (body req) (this_bodyName this) = None \<and>
          truthy_field (query req) (this_queryName this) = None \<longrightarrow>
            authenticate this req = call_verify this req credentials \<and>
            hd (authenticate this req) =
              Verify (if this_passReqToCallback this then Some req else None) credentials) \<and>
         (\<not> is_bearer scheme \<longrightarrow>
            authenticate this req =
              (case (truthy_field (body req) (this_bodyName this),
                     truthy_field (query req) (this_queryName this)) of
                 (None, None) \<Rightarrow> [Fail_challenge (challenge this None None None)]
               | (Some b, None) \<Rightarrow> call_verify this req b
               | (None, Some q) \<Rightarrow> call_verify this req q
               | (Some b, Some q) \<Rightarrow> [Fail_status 400]))"
proof -
  have t: "truthy_field (headers req) (this_headerName this) = Some h"
    using assms by (rule header_is_truthy)
  show ?thesis
  proof (intro conjI impI)
    assume a: "is_bearer scheme \<and> credentials \<noteq> [] \<and>
          truthy_field (body req) (this_bodyName this) = None \<and>
          truthy_field (query req) (this_queryName this) = None"
    then show c: "authenticate this req = call_verify this req credentials"
      using authenticate_bearer_only [OF t assms(3)] by blast
    show "hd (authenticate this req) =
              Verify (if this_passReqToCallback this then Some req else None) credentials"
      by (simp add: c call_verify_def Let_def)
  next
    assume "\<not> is_bearer scheme"
    then show "authenticate this req =
              (case (truthy_field (body req) (this_bodyName this),
                     truthy_field (query req) (this_queryName this)) of
                 (None, None) \<Rightarrow> [Fail_challenge (challenge this None None None)]
               | (Some b, None) \<Rightarrow> call_verify this req b
               | (None, Some q) \<Rightarrow> call_verify this req q
               | (Some b, Some q) \<Rightarrow> [Fail_status 400])"
      using authenticate_no_header_token [of req this] t assms(3) by simp
  qed
qed

text \<open>
  \<^verbatim>\<open>Authorization: bearer abc\<close> alone: the callback gets \<^verbatim>\<open>abc\<close> and accepts.
  \<^verbatim>\<open>Authorization: Basic abc\<close> with a token in the query: the callback gets the
  query's token, and rejects it.
\<close>

theorem two_part_header_witness:
  "authenticate default_example
     \<lparr>headers = Some [''authorization'' \<mapsto> ''bearer abc''], body = None, query = None\<rparr> =
     [Verify None ''abc'',
      Success ''alice''
        (Info_object [''scope'' \<mapsto> ''read'', ''headerName'' \<mapsto> ''authorization'',
           ''bodyName'' \<mapsto> ''access_token'', ''queryName'' \<mapsto> ''access_token''])] \<and>
   authenticate default_example
     \<lparr>headers = Some [''authorization'' \<mapsto> ''Basic abc''], body = None,
      query = Some [''access_token'' \<mapsto> ''xyz'']\<rparr> =
     [Verify None ''xyz'',
      Fail_challenge
        ''Bearer realm=\"Users\", error=\"invalid_token\", error_description=\"bad token\"'']"
proof -
  have "authenticate default_example
     \<lparr>headers = Some [''authorization'' \<mapsto> ''bearer abc''], body = None, query = None\<rparr> =
     call_verify default_example
       \<lparr>headers = Some [''authorization'' \<mapsto> ''bearer abc''], body = None, query = None\<rparr>
       ''abc''"
    using two_part_header [of
        "\<lparr>headers = Some [''authorization'' \<mapsto> ''bearer abc''], body = None, query = None\<rparr>"
        "[''authorization'' \<mapsto> ''bearer abc'']" default_example "''bearer abc''"
        "''bearer''" "''abc''"]
    by (simp add: default_example_fields truthy_field_def string_eval)
  moreover have "authenticate default_example
     \<lparr>headers = Some [''authorization'' \<mapsto> ''Basic abc''], body = None,
      query = Some [''access_token'' \<mapsto> ''xyz'']\<rparr> =
     call_verify default_example
       \<lparr>headers = Some [''authorization'' \<mapsto> ''Basic abc''], body = None,
        query = Some [''access_token'' \<mapsto> ''xyz'']\<rparr> ''xyz''"
    using two_part_header [of
        "\<lparr>headers = Some [''authorization'' \<mapsto> ''Basic abc''], body = None,
          query = Some [''access_token'' \<mapsto> ''xyz'']\<rparr>"
        "[''authorization'' \<mapsto> ''Basic abc'']" default_example "''Basic abc''"
        "''Basic''" "''abc''"]
    by (simp add: default_example_fields truthy_field_def string_eval)
  ultimately show ?thesis
    by (simp add: default_example_fields run_eval)
qed

text \<open>
  The condition that the second part is not empty is needed: \<^verbatim>\<open>'Bearer '\<close> splits
  into \<^verbatim>\<open>['Bearer', '']\<close>, the candidate is the empty string, and \<^verbatim>\<open>if (!token)\<close>
  answers with the challenge; the verify callback is not called.
\<close>

theorem empty_bearer_token_not_verified:
  "split_sp ''Bearer '' = [''Bearer'', ''''] \<and> is_bearer ''Bearer'' \<and>
   authenticate default_example
     \<lparr>headers = Some [''authorization'' \<mapsto> ''Bearer ''], body = None, query = None\<rparr> =
   [Fail_challenge ''Bearer realm=\"Users\"'']"
  by (simp add: default_example_fields run_eval string_eval)

subsection \<open>No credential\<close>

text \<open>
  Claim C6. When the locator finds no credential in any location, the call is answered
  with \<^verbatim>\<open>fail\<close> of the challenge built with no error code, description or URI, and
  the verify callback is not called; under the default configuration the challenge is
  \<^verbatim>\<open>Bearer realm="Users"\<close>. No credential in the header means: the header is absent
  or empty, or it has two parts and either another scheme than Bearer or an empty second
  part (a header with another number of parts is the case of claim C2).
\<close>

theorem no_credential_bare_challenge:
  assumes "case truthy_field (headers req) (this_headerName this) of
             None \<Rightarrow> True
           | Some h \<Rightarrow> (\<exists>scheme credentials.
                 split_sp h = [scheme, credentials] \<and> (is_bearer scheme \<longrightarrow> credentials = []))"
    and "truthy_field (body req) (this_bodyName this) = None"
    and "truthy_field (query req) (this_queryName this) = None"
  shows "authenticate this req = [Fail_challenge (challenge this None None None)] \<and>
         (\<forall>r t. Verify r t \<notin> set (authenticate this req)) \<and>
         ((\<exists>v w. Strategy (Arg_function v) w = Inr this) \<or>
          (\<exists>v. Strategy (Arg_options empty_options) (Some v) = Inr this) \<longrightarrow>
            authenticate this req = [Fail_challenge ''Bearer realm=\"Users\"''])"
proof -
  have a: "authenticate this req = [Fail_challenge (challenge this None None None)]"
    using authenticate_no_header_token [OF assms(1)] assms(2,3) by simp
  have "challenge this None None None = ''Bearer realm=\"Users\"''"
    if "(\<exists>v w. Strategy (Arg_function v) w = Inr this) \<or>
        (\<exists>v. Strategy (Arg_options empty_options) (Some v) = Inr this)"
  proof -
    from that obtain v w where "Strategy (Arg_function v) w = Inr this"
      using default_options_strategy by metis
    then show ?thesis
      using default_realm_scope bare_challenge_default by blast
  qed
  with a show ?thesis by simp
qed

text \<open>
  A request with nothing at all, and one with a Basic header, an empty body and a query
  that holds another field.
\<close>

theorem no_credential_bare_challenge_witness:
  "authenticate default_example \<lparr>headers = None, body = None, query = None\<rparr> =
     [Fail_challenge ''Bearer realm=\"Users\"''] \<and>
   authenticate default_example
     \<lparr>headers = Some [''authorization'' \<mapsto> ''Basic abc''], body = Some Map.empty,
      query = Some [''token'' \<mapsto> ''xyz'']\<rparr> =
     [Fail_challenge ''Bearer realm=\"Users\"'']"
proof -
  let ?r1 = "\<lparr>headers = None, body = None, query = None\<rparr>"
  let ?r2 = "\<lparr>headers = Some [''authorization'' \<mapsto> ''Basic abc''], body = Some Map.empty,
      query = Some [''token'' \<mapsto> ''xyz'']\<rparr>"
  have d: "\<exists>v w. Strategy (Arg_function v) w = Inr default_example"
    using default_example_built by blast
  have h1: "case truthy_field (headers ?r1) (this_headerName default_example) of
             None \<Rightarrow> True
           | Some h \<Rightarrow> (\<exists>scheme credentials.
                 split_sp h = [scheme, credentials] \<and> (is_bearer scheme \<longrightarrow> credentials = []))"
    by (simp add: truthy_field_def)
  have b1: "truthy_field (body ?r1) (this_bodyName default_example) = None"
    and q1: "truthy_field (query ?r1) (this_queryName default_example) = None"
    by (simp_all add: truthy_field_def)
  have h2: "case truthy_field (headers ?r2) (this_headerName default_example) of
             None \<Rightarrow> True
           | Some h \<Rightarrow> (\<exists>scheme credentials.
                 split_sp h = [scheme, credentials] \<and> (is_bearer scheme \<longrightarrow> credentials = []))"
    by (simp add: default_example_fields truthy_field_def string_eval)
  have b2: "truthy_field (body ?r2) (this_bodyName default_example) = None"
    and q2: "truthy_field (query ?r2) (this_queryName default_example) = None"
    by (simp_all add: default_example_fields truthy_field_def)
  from no_credential_bare_challenge [OF h1 b1 q1] no_credential_bare_challenge [OF h2 b2 q2] d
  show ?thesis by blast
qed

subsection \<open>The result handler\<close>

text \<open>
  Claim C7. Called with no error and a falsy user, \<^verbatim>\<open>verified\<close> answers with
  \<^verbatim>\<open>fail\<close> of a challenge, whatever the info. When the info is a string, the challenge
  is the one \<^verbatim>\<open>_challenge\<close> builds from the code \<^verbatim>\<open>invalid_token\<close> and this
  string as description: for a non-empty string, the bare challenge followed by the error
  and error_description fields. Under the default configuration,
  \<^verbatim>\<open>(null, false, 'bad token')\<close> gives
  \<^verbatim>\<open>Bearer realm="Users", error="invalid_token", error_description="bad token"\<close>.
\<close>

theorem rejected_identity_challenge:
  "(\<exists>c. verified this None None info = Fail_challenge c) \<and>
   verified this None None (Info_string s) =
     Fail_challenge (challenge this (Some ''invalid_token'') (Some s) None) \<and>
   (s \<noteq> [] \<longrightarrow>
      verified this None None (Info_string s) =
        Fail_challenge (challenge this None None None @
          '', error=\"invalid_token\", error_description=\"'' @ s @ ''\"'')) \<and>
   ((\<exists>v w. Strategy (Arg_function v) w = Inr this) \<longrightarrow>
      verified this None None (Info_string ''bad token'') =
        Fail_challenge
          ''Bearer realm=\"Users\", error=\"invalid_token\", error_description=\"bad token\"'')"
proof (intro conjI impI)
  show "\<exists>c. verified this None None info = Fail_challenge c"
    by (simp add: verified_def Let_def)
  show "verified this None None (Info_string s) =
     Fail_challenge (challenge this (Some ''invalid_token'') (Some s) None)"
    by (simp add: verified_def message_of_def challenge_def)
  show "verified this None None (Info_string s) =
        Fail_challenge (challenge this None None None @
          '', error=\"invalid_token\", error_description=\"'' @ s @ ''\"'')" if "s \<noteq> []"
    using that
    by (cases "this_scope this") (simp_all add: verified_def message_of_def challenge_def Let_def)
  show "verified this None None (Info_string ''bad token'') =
        Fail_challenge
          ''Bearer realm=\"Users\", error=\"invalid_token\", error_description=\"bad token\"''"
    if "\<exists>v w. Strategy (Arg_function v) w = Inr this"
  proof -
    have "this_realm this = ''Users''" "this_scope this = None"
      using that default_realm_scope by blast+
    then show ?thesis
      by (simp add: verified_def message_of_def challenge_def)
  qed
qed

text \<open>
  The default strategy and the message \<^verbatim>\<open>bad token\<close>.
\<close>

theorem rejected_identity_challenge_witness:
  "verified default_example None None (Info_string ''bad token'') =
     Fail_challenge
       ''Bearer realm=\"Users\", error=\"invalid_token\", error_description=\"bad token\"''"
proof -
  have "\<exists>v w. Strategy (Arg_function v) w = Inr default_example"
    using default_example_built by blast
  then show ?thesis
    using rejected_identity_challenge [of default_example Info_undefined "''bad token''"]
    by blast
qed

text \<open>
  Claim C8, amended. Called with no error and a truthy user, \<^verbatim>\<open>verified\<close> answers
  with \<^verbatim>\<open>success\<close> of this user. When the info is an object or is not supplied (or
  is falsy), the info of the success is an object that holds the keys
  \<^verbatim>\<open>headerName\<close>, \<^verbatim>\<open>bodyName\<close> and \<^verbatim>\<open>queryName\<close> with the three
  resolved names of the strategy, and under every other key what the caller supplied.
\<close>

theorem accepted_identity_info:
  "(\<exists>i. verified this None (Some u) info = Success u i) \<and>
   ((\<forall>s. info = Info_string s \<longrightarrow> s = []) \<longrightarrow>
      (\<exists>m'. verified this None (Some u) info = Success u (Info_object m') \<and>
         m' ''headerName'' = Some (this_headerName this) \<and>
         m' ''bodyName'' = Some (this_bodyName this) \<and>
         m' ''queryName'' = Some (this_queryName this) \<and>
         (\<forall>k. k \<notin> {''headerName'', ''bodyName'', ''queryName''} \<longrightarrow>
            m' k = (case info of Info_object m \<Rightarrow> m k | _ \<Rightarrow> None))))"
  by (cases info) (simp_all add: verified_def set_info_def)

text \<open>
  The default strategy, the user alice and the info \<^verbatim>\<open>{scope: 'read'}\<close>.
\<close>

theorem accepted_identity_info_witness:
  "\<exists>m'. verified default_example None (Some ''alice'') (Info_object [''scope'' \<mapsto> ''read'']) =
          Success ''alice'' (Info_object m') \<and>
        m' ''scope'' = Some ''read'' \<and>
        m' ''headerName'' = Some ''authorization'' \<and>
        m' ''bodyName'' = Some ''access_token'' \<and>
        m' ''queryName'' = Some ''access_token''"
proof -
  have "\<forall>s. Info_object [''scope'' \<mapsto> ''read''] = Info_string s \<longrightarrow> s = []"
    by simp
  with accepted_identity_info [of default_example "''alice''"
      "Info_object [''scope'' \<mapsto> ''read'']"]
  obtain m' where m:
    "verified default_example None (Some ''alice'') (Info_object [''scope'' \<mapsto> ''read'']) =
       Success ''alice'' (Info_object m')"
    "m' ''headerName'' = Some (this_headerName default_example)"
    "m' ''bodyName'' = Some (this_bodyName default_example)"
    "m' ''queryName'' = Some (this_queryName default_example)"
    "\<forall>k. k \<notin> {''headerName'', ''bodyName'', ''queryName''} \<longrightarrow>
       m' k = (case Info_object [''scope'' \<mapsto> ''read''] of Info_object m \<Rightarrow> m k | _ \<Rightarrow> None)"
    by blast
  from m(5) have "m' ''scope'' = Some ''read''"
    by simp
  with m(1-4) show ?thesis
    by (simp add: default_example_fields)
qed

text \<open>
  The condition on the info is needed. A non-empty string is truthy, so
  \<^verbatim>\<open>info || {}\<close> keeps it; the three assignments \<^verbatim>\<open>info['headerName'] = ...\<close>
  on a string do nothing, and \<^verbatim>\<open>success\<close> gets the bare string, with no field
  names.
\<close>

theorem string_info_not_augmented:
  "verified default_example None (Some ''alice'') (Info_string ''note'') =
     Success ''alice'' (Info_string ''note'')"
  by (simp add: verified_def set_info_def)

subsection \<open>The challenge string\<close>

text \<open>
  Claim C9, amended. For every strategy whose scope is not configured, or is configured
  with a space-joined value that is not empty, and for every choice of error code,
  description and URI, the string built by \<^verbatim>\<open>_challenge\<close> is
  \<^verbatim>\<open>Bearer realm="<realm>"\<close> followed by the optional fields scope (the scope values
  joined by single spaces), error, error_description and error_uri, in this order, each
  of them there exactly when its value is given and is not the empty string.
\<close>

theorem challenge_is_format:
  assumes "this_scope this = None \<or> (\<exists>sc. this_scope this = Some sc \<and> join_sp sc \<noteq> [])"
  shows "challenge this code desc uri =
           challenge_format (this_realm this) (this_scope this) code desc uri"
  using assms
  by (auto simp: challenge_def challenge_format_def challenge_field_def present_def
        split: option.split)

text \<open>
  All four optional fields at once, for the scope \<^verbatim>\<open>['read', 'write']\<close>.
\<close>

theorem challenge_is_format_witness:
  \<open>challenge
     (projr (Strategy
        (Arg_options (empty_options\<lparr>scope := Some (Scope_array [''read'', ''write''])\<rparr>))
        (Some example_verify)))
     (Some ''invalid_token'') (Some ''bad token'') (Some ''https://example.org/err'') =
   ''Bearer realm="Users", scope="read write", error="invalid_token", '' @
   ''error_description="bad token", error_uri="https://example.org/err"''\<close>
proof -
  let ?st = "projr (Strategy
        (Arg_options (empty_options\<lparr>scope := Some (Scope_array [''read'', ''write''])\<rparr>))
        (Some example_verify))"
  have f: "this_scope ?st = Some [''read'', ''write'']" "this_realm ?st = ''Users''"
    by (simp_all add: Strategy_def empty_options_def or_else_def)
  then have "this_scope ?st = None \<or>
             (\<exists>sc. this_scope ?st = Some sc \<and> join_sp sc \<noteq> [])"
    by simp
  from challenge_is_format [OF this] show ?thesis
    by (simp add: f challenge_format_def challenge_field_def present_def)
qed

text \<open>
  Without the condition on the scope the statement fails. An empty array is truthy, so
  the constructor keeps \<^verbatim>\<open>scope: []\<close> and \<^verbatim>\<open>if (this._scope)\<close> adds the
  field: the challenge holds \<^verbatim>\<open>scope=""\<close>, a field with an empty value, which the
  format leaves out.
\<close>

theorem empty_scope_rendered:
  \<open>challenge
     (projr (Strategy (Arg_options (empty_options\<lparr>scope := Some (Scope_array [])\<rparr>))
        (Some example_verify))) None None None = ''Bearer realm="Users", scope=""'' \<and>
   challenge_format ''Users'' (Some []) None None None = ''Bearer realm="Users"''\<close>
  by (simp add: Strategy_def empty_options_def or_else_def challenge_def challenge_format_def
        challenge_field_def present_def)

subsection \<open>Empty strings are no credentials\<close>

text \<open>
  Claim C10. Whether a location carries a credential is decided by the truthiness of its
  value, at every location. Let \<open>hv\<close>, \<open>bv\<close> and \<open>qv\<close> be the values under the
  configured header, body field and query field, with the empty string standing for a
  value, or a whole object, that is not there; and let \<open>hc\<close> be the candidate of the
  header, the second part of a two-part Bearer value, and the empty string otherwise. Then
  the outcome depends on these strings alone, an empty one counting as absent: a non-empty
  header value with another number of parts than two gives status 400; otherwise no
  non-empty string among \<open>hc\<close>, \<open>bv\<close>, \<open>qv\<close> gives the challenge with no error
  code, exactly one gives the call of the verify callback with it, and two or three give
  status 400. In particular, after a header that is a Bearer scheme, one space and nothing
  else, a credential in the body alone or in the query alone is verified with no conflict,
  and a request whose only credentials are empty strings gets the bare challenge, not
  status 400.
\<close>

theorem empty_credentials_ignored:
  assumes "hv = (case headers req of None \<Rightarrow> []
                 | Some m \<Rightarrow> (case m (this_headerName this) of None \<Rightarrow> [] | Some v \<Rightarrow> v))"
    and "bv = (case body req of None \<Rightarrow> []
               | Some m \<Rightarrow> (case m (this_bodyName this) of None \<Rightarrow> [] | Some v \<Rightarrow> v))"
    and "qv = (case query req of None \<Rightarrow> []
               | Some m \<Rightarrow> (case m (this_queryName this) of None \<Rightarrow> [] | Some v \<Rightarrow> v))"
    and "hc = (case split_sp hv of
                 [scheme, credentials] \<Rightarrow> if is_bearer scheme then credentials else []
               | _ \<Rightarrow> [])"
  shows "authenticate this req =
           (if hv \<noteq> [] \<and> length (split_sp hv) \<noteq> 2 then [Fail_status 400]
            else case filter (\<lambda>t. t \<noteq> []) [hc, bv, qv] of
                   [] \<Rightarrow> [Fail_challenge (challenge this None None None)]
                 | [t] \<Rightarrow> call_verify this req t
                 | _ \<Rightarrow> [Fail_status 400]) \<and>
         ((\<exists>scheme. hv = scheme @ '' '' \<and> is_bearer scheme) \<and> bv \<noteq> [] \<and> qv = [] \<longrightarrow>
            authenticate this req = call_verify this req bv) \<and>
         ((\<exists>scheme. hv = scheme @ '' '' \<and> is_bearer scheme) \<and> bv = [] \<and> qv \<noteq> [] \<longrightarrow>
            authenticate this req = call_verify this req qv) \<and>
         ((hv = [] \<or> (\<exists>scheme. hv = scheme @ '' '' \<and> is_bearer scheme)) \<and> bv = [] \<and> qv = [] \<longrightarrow>
            authenticate this req = [Fail_challenge (challenge this None None None)])"
proof -
  have th: "truthy_field (headers req) (this_headerName this) = (if hv = [] then None else Some hv)"
    and tb: "truthy_field (body req) (this_bodyName this) = (if bv = [] then None else Some bv)"
    and tq: "truthy_field (query req) (this_queryName this) = (if qv = [] then None else Some qv)"
    using assms(1-3) by (simp_all add: truthy_field_value)
  have none: "authenticate this req =
       (case filter (\<lambda>t. t \<noteq> []) [hc, bv, qv] of
          [] \<Rightarrow> [Fail_challenge (challenge this None None None)]
        | [t] \<Rightarrow> call_verify this req t
        | _ \<Rightarrow> [Fail_status 400])"
    if nc: "case truthy_field (headers req) (this_headerName this) of
             None \<Rightarrow> True
           | Some h \<Rightarrow> (\<exists>scheme credentials.
                 split_sp h = [scheme, credentials] \<and> (is_bearer scheme \<longrightarrow> credentials = []))"
      and e: "hc = []"
    using authenticate_no_header_token [OF nc] e by (simp add: tb tq)
  have main: "authenticate this req =
           (if hv \<noteq> [] \<and> length (split_sp hv) \<noteq> 2 then [Fail_status 400]
            else case filter (\<lambda>t. t \<noteq> []) [hc, bv, qv] of
                   [] \<Rightarrow> [Fail_challenge (challenge this None None None)]
                 | [t] \<Rightarrow> call_verify this req t
                 | _ \<Rightarrow> [Fail_status 400])"
  proof (cases "hv = []")
    case True
    then have "hc = []"
      using assms(4) by simp
    moreover have "case truthy_field (headers req) (this_headerName this) of
             None \<Rightarrow> True
           | Some h \<Rightarrow> (\<exists>scheme credentials.
                 split_sp h = [scheme, credentials] \<and> (is_bearer scheme \<longrightarrow> credentials = []))"
      using True by (simp add: th)
    ultimately show ?thesis
      using none True by simp
  next
    case False
    note hv = this
    show ?thesis
    proof (cases "length (split_sp hv) = 2")
      case False
      with hv th show ?thesis
        by (simp add: authenticate_def not_two_parts)
    next
      case True
      then obtain scheme credentials where sp: "split_sp hv = [scheme, credentials]"
        using two_elements by blast
      show ?thesis
      proof (cases "is_bearer scheme \<and> credentials \<noteq> []")
        case True
        then have hc: "hc = credentials"
          using assms(4) sp by simp
        have t: "truthy_field (headers req) (this_headerName this) = Some hv"
          using hv th by simp
        show ?thesis
        proof (cases "bv = [] \<and> qv = []")
          case True
          then have "authenticate this req = call_verify this req credentials"
            using authenticate_bearer_only [OF t sp] \<open>is_bearer scheme \<and> credentials \<noteq> []\<close>
            by (simp add: tb tq)
          with True hc \<open>is_bearer scheme \<and> credentials \<noteq> []\<close> sp show ?thesis
            by simp
        next
          case False
          then have "truthy_field (body req) (this_bodyName this) \<noteq> None \<or>
                     truthy_field (query req) (this_queryName this) \<noteq> None"
            by (auto simp: tb tq)
          then have "authenticate this req = [Fail_status 400]"
            using authenticate_header_token [OF t sp] \<open>is_bearer scheme \<and> credentials \<noteq> []\<close>
            by blast
          with False hc \<open>is_bearer scheme \<and> credentials \<noteq> []\<close> sp show ?thesis
            by auto
        qed
      next
        case False
        then have "hc = []"
          using assms(4) sp by auto
        moreover have "case truthy_field (headers req) (this_headerName this) of
             None \<Rightarrow> True
           | Some h \<Rightarrow> (\<exists>scheme credentials.
                 split_sp h = [scheme, credentials] \<and> (is_bearer scheme \<longrightarrow> credentials = []))"
          using hv sp False by (auto simp: th)
        ultimately show ?thesis
          using none sp by simp
      qed
    qed
  qed
  have empty: "split_sp hv = [scheme, []] \<and> hc = []"
    if "hv = scheme @ '' ''" "is_bearer scheme" for scheme
  proof -
    have "split_sp hv = [scheme, []]"
      using split_sp_two [of scheme "[]"] is_bearer_no_space [OF that(2)] that(1) by simp
    then show ?thesis
      using assms(4) by simp
  qed
  show ?thesis
  proof (intro conjI impI)
    show "authenticate this req =
           (if hv \<noteq> [] \<and> length (split_sp hv) \<noteq> 2 then [Fail_status 400]
            else case filter (\<lambda>t. t \<noteq> []) [hc, bv, qv] of
                   [] \<Rightarrow> [Fail_challenge (challenge this None None None)]
                 | [t] \<Rightarrow> call_verify this req t
                 | _ \<Rightarrow> [Fail_status 400])"
      by (rule main)
  next
    assume "(\<exists>scheme. hv = scheme @ '' '' \<and> is_bearer scheme) \<and> bv \<noteq> [] \<and> qv = []"
    then show "authenticate this req = call_verify this req bv"
      using empty by (auto simp: main)
  next
    assume "(\<exists>scheme. hv = scheme @ '' '' \<and> is_bearer scheme) \<and> bv = [] \<and> qv \<noteq> []"
    then show "authenticate this req = call_verify this req qv"
      using empty by (auto simp: main)
  next
    assume "(hv = [] \<or> (\<exists>scheme. hv = scheme @ '' '' \<and> is_bearer scheme)) \<and> bv = [] \<and> qv = []"
    then show "authenticate this req = [Fail_challenge (challenge this None None None)]"
      using empty assms(4) by (auto simp: main)
  qed
qed

text \<open>
  Four requests to the default strategy: an empty body field beside a token in the query;
  an empty body field beside \<^verbatim>\<open>Authorization: Bearer abc\<close>; the header
  \<^verbatim>\<open>Bearer \<close> with its empty second part beside a token in the body; and empty
  strings in all three locations.
\<close>

theorem empty_credentials_ignored_witness:
  \<open>authenticate default_example
     \<lparr>headers = None, body = Some [''access_token'' \<mapsto> ''''],
      query = Some [''access_token'' \<mapsto> ''abc'']\<rparr> =
     [Verify None ''abc'',
      Success ''alice''
        (Info_object [''scope'' \<mapsto> ''read'', ''headerName'' \<mapsto> ''authorization'',
           ''bodyName'' \<mapsto> ''access_token'', ''queryName'' \<mapsto> ''access_token''])] \<and>
   authenticate default_example
     \<lparr>headers = Some [''authorization'' \<mapsto> ''Bearer abc''],
      body = Some [''access_token'' \<mapsto> ''''], query = None\<rparr> =
     [Verify None ''abc'',
      Success ''alice''
        (Info_object [''scope'' \<mapsto> ''read'', ''headerName'' \<mapsto> ''authorization'',
           ''bodyName'' \<mapsto> ''access_token'', ''queryName'' \<mapsto> ''access_token''])] \<and>
   authenticate default_example
     \<lparr>headers = Some [''authorization'' \<mapsto> ''Bearer ''],
      body = Some [''access_token'' \<mapsto> ''abc''], query = None\<rparr> =
     [Verify None ''abc'',
      Success ''alice''
        (Info_object [''scope'' \<mapsto> ''read'', ''headerName'' \<mapsto> ''authorization'',
           ''bodyName'' \<mapsto> ''access_token'', ''queryName'' \<mapsto> ''access_token''])] \<and>
   authenticate default_example
     \<lparr>headers = Some [''authorization'' \<mapsto> ''Bearer ''],
      body = Some [''access_token'' \<mapsto> ''''], query = Some [''access_token'' \<mapsto> '''']\<rparr> =
     [Fail_challenge ''Bearer realm="Users"'']\<close>
proof -
  note rule = empty_credentials_ignored [OF refl refl refl refl, THEN conjunct1]
  show ?thesis
    by (simp add: rule default_example_fields string_eval call_verify_def example_verify_def
          verified_def set_info_def challenge_def)
qed

end
